theory Spec2Isabelle
  imports Complex_Main
begin

section \<open>Floating-point values and 2-D arrays\<close>

text \<open>
  The program (\<^verbatim>\<open>gammapy/detect/test_statistics.py\<close>) computes with NumPy
  \<^verbatim>\<open>float64\<close> values.  They are modelled as exact reals extended by the two
  infinities and not-a-number.  The arithmetic below follows IEEE-754 for the special
  values (NaN propagates, \<open>inf - inf\<close> and \<open>0 * inf\<close> are NaN, every comparison with
  NaN is false); rounding, overflow of finite results and the sign of zero are not
  represented.  Every property proved below concerns control flow, special values and
  expressions that the code evaluates literally, none of which depends on rounding.
\<close>

datatype npfloat = Fin real | PInf | NInf | NaN

fun np_neg :: "npfloat \<Rightarrow> npfloat" where
  "np_neg (Fin x) = Fin (- x)"
| "np_neg PInf = NInf"
| "np_neg NInf = PInf"
| "np_neg NaN = NaN"

fun np_add :: "npfloat \<Rightarrow> npfloat \<Rightarrow> npfloat" where
  "np_add NaN b = NaN"
| "np_add (Fin x) NaN = NaN"
| "np_add (Fin x) (Fin y) = Fin (x + y)"
| "np_add (Fin x) PInf = PInf"
| "np_add (Fin x) NInf = NInf"
| "np_add PInf NaN = NaN"
| "np_add PInf NInf = NaN"
| "np_add PInf (Fin y) = PInf"
| "np_add PInf PInf = PInf"
| "np_add NInf NaN = NaN"
| "np_add NInf PInf = NaN"
| "np_add NInf (Fin y) = NInf"
| "np_add NInf NInf = NInf"

definition np_sub :: "npfloat \<Rightarrow> npfloat \<Rightarrow> npfloat" where
  "np_sub a b = np_add a (np_neg b)"

fun np_sign :: "npfloat \<Rightarrow> npfloat" where
  "np_sign (Fin x) = Fin (sgn x)"
| "np_sign PInf = Fin 1"
| "np_sign NInf = Fin (- 1)"
| "np_sign NaN = NaN"

fun np_abs :: "npfloat \<Rightarrow> npfloat" where
  "np_abs (Fin x) = Fin \<bar>x\<bar>"
| "np_abs PInf = PInf"
| "np_abs NInf = PInf"
| "np_abs NaN = NaN"

fun np_mul :: "npfloat \<Rightarrow> npfloat \<Rightarrow> npfloat" where
  "np_mul NaN b = NaN"
| "np_mul (Fin x) NaN = NaN"
| "np_mul PInf NaN = NaN"
| "np_mul NInf NaN = NaN"
| "np_mul (Fin x) (Fin y) = Fin (x * y)"
| "np_mul (Fin x) PInf = (if x = 0 then NaN else if 0 < x then PInf else NInf)"
| "np_mul (Fin x) NInf = (if x = 0 then NaN else if 0 < x then NInf else PInf)"
| "np_mul PInf (Fin y) = (if y = 0 then NaN else if 0 < y then PInf else NInf)"
| "np_mul NInf (Fin y) = (if y = 0 then NaN else if 0 < y then NInf else PInf)"
| "np_mul PInf PInf = PInf"
| "np_mul PInf NInf = NInf"
| "np_mul NInf PInf = NInf"
| "np_mul NInf NInf = PInf"

fun np_div :: "npfloat \<Rightarrow> npfloat \<Rightarrow> npfloat" where
  "np_div NaN b = NaN"
| "np_div (Fin x) NaN = NaN"
| "np_div PInf NaN = NaN"
| "np_div NInf NaN = NaN"
| "np_div (Fin x) (Fin y) =
     (if y \<noteq> 0 then Fin (x / y)
      else if 0 < x then PInf else if x < 0 then NInf else NaN)"
| "np_div (Fin x) PInf = Fin 0"
| "np_div (Fin x) NInf = Fin 0"
| "np_div PInf (Fin y) = (if 0 \<le> y then PInf else NInf)"
| "np_div NInf (Fin y) = (if 0 \<le> y then NInf else PInf)"
| "np_div PInf PInf = NaN"
| "np_div PInf NInf = NaN"
| "np_div NInf PInf = NaN"
| "np_div NInf NInf = NaN"

fun np_sqrt :: "npfloat \<Rightarrow> npfloat" where
  "np_sqrt (Fin x) = (if 0 \<le> x then Fin (sqrt x) else NaN)"
| "np_sqrt PInf = PInf"
| "np_sqrt NInf = NaN"
| "np_sqrt NaN = NaN"

text \<open>The comparison \<^verbatim>\<open>a > b\<close>; it is false as soon as one side is NaN.\<close>

fun np_gt :: "npfloat \<Rightarrow> npfloat \<Rightarrow> bool" where
  "np_gt NaN b = False"
| "np_gt (Fin x) (Fin y) = (y < x)"
| "np_gt (Fin x) NInf = True"
| "np_gt (Fin x) PInf = False"
| "np_gt (Fin x) NaN = False"
| "np_gt PInf (Fin y) = True"
| "np_gt PInf NInf = True"
| "np_gt PInf PInf = False"
| "np_gt PInf NaN = False"
| "np_gt NInf b = False"

definition np_lt :: "npfloat \<Rightarrow> npfloat \<Rightarrow> bool" where
  "np_lt a b = np_gt b a"

text \<open>The comparison \<^verbatim>\<open>a == b\<close>: NaN is not equal to anything, itself included.\<close>

definition np_eq :: "npfloat \<Rightarrow> npfloat \<Rightarrow> bool" where
  "np_eq a b = (a \<noteq> NaN \<and> a = b)"

definition np_isfinite :: "npfloat \<Rightarrow> bool" where
  "np_isfinite a = (case a of Fin x \<Rightarrow> True | _ \<Rightarrow> False)"

text \<open>Python's builtin \<^verbatim>\<open>max(a, b)\<close> on two numbers: \<open>b\<close> only where \<^verbatim>\<open>b > a\<close>.\<close>

definition py_max :: "npfloat \<Rightarrow> npfloat \<Rightarrow> npfloat" where
  "py_max a b = (if np_gt b a then b else a)"

definition FLUX_FACTOR :: npfloat where
  "FLUX_FACTOR = Fin (1 / 10 ^ 12)"

definition MAX_NITER :: int where
  "MAX_NITER = 20"

text \<open>
  A 2-D array is its shape and its entries.  Entries outside the shape are never read
  by the operations below.
\<close>

record 'a array2 =
  nrows :: nat
  ncols :: nat
  cell :: "nat \<Rightarrow> nat \<Rightarrow> 'a"

type_synonym farray = "npfloat array2"

definition shape :: "'a array2 \<Rightarrow> nat \<times> nat" where
  "shape a = (nrows a, ncols a)"

definition full :: "nat \<times> nat \<Rightarrow> 'a \<Rightarrow> 'a array2" where
  "full s v = \<lparr>nrows = fst s, ncols = snd s, cell = (\<lambda>j i. v)\<rparr>"

definition map_array :: "('a \<Rightarrow> 'b) \<Rightarrow> 'a array2 \<Rightarrow> 'b array2" where
  "map_array f a = \<lparr>nrows = nrows a, ncols = ncols a, cell = (\<lambda>j i. f (cell a j i))\<rparr>"

text \<open>All entries in row-major order, and NumPy's \<^verbatim>\<open>a.sum()\<close> and \<^verbatim>\<open>a.any()\<close>.\<close>

definition entries :: "'a array2 \<Rightarrow> 'a list" where
  "entries a = concat (map (\<lambda>j. map (\<lambda>i. cell a j i) [0..<ncols a]) [0..<nrows a])"

definition np_sum :: "farray \<Rightarrow> npfloat" where
  "np_sum a = foldl np_add (Fin 0) (entries a)"

definition np_any :: "bool array2 \<Rightarrow> bool" where
  "np_any a = (\<exists>b \<in> set (entries a). b)"

datatype pyerr =
  NameError | TypeError | ValueError | KeyError | AssertionError | IndexError | MissingImage

definition bind_err :: "pyerr + 'a \<Rightarrow> ('a \<Rightarrow> pyerr + 'b) \<Rightarrow> pyerr + 'b" where
  "bind_err m f = (case m of Inl e \<Rightarrow> Inl e | Inr x \<Rightarrow> f x)"

text \<open>
  NumPy broadcasting of two axis lengths: equal lengths, or one of them 1; anything else
  raises \<^verbatim>\<open>ValueError\<close>.
\<close>

definition bc_axis :: "nat \<Rightarrow> nat \<Rightarrow> nat option" where
  "bc_axis m n = (if m = n then Some m else if m = 1 then Some n
                  else if n = 1 then Some m else None)"

definition bc_index :: "nat \<Rightarrow> nat \<Rightarrow> nat" where
  "bc_index len k = (if len = 1 then 0 else k)"

definition np_binop ::
  "('a \<Rightarrow> 'b \<Rightarrow> 'c) \<Rightarrow> 'a array2 \<Rightarrow> 'b array2 \<Rightarrow> pyerr + 'c array2" where
  "np_binop f a b =
     (case bc_axis (nrows a) (nrows b) of
        None \<Rightarrow> Inl ValueError
      | Some r \<Rightarrow>
          (case bc_axis (ncols a) (ncols b) of
             None \<Rightarrow> Inl ValueError
           | Some c \<Rightarrow>
               Inr \<lparr>nrows = r, ncols = c,
                    cell = (\<lambda>j i. f (cell a (bc_index (nrows a) j) (bc_index (ncols a) i))
                                  (cell b (bc_index (nrows b) j) (bc_index (ncols b) i)))\<rparr>))"

text \<open>
  A Python slice \<^verbatim>\<open>lo:hi\<close> on an axis of length \<open>n\<close>: a negative bound counts from
  the end, bounds are clipped to the axis, and the result is empty when the start is not
  below the stop.  The result is the first index and the number of indices.
\<close>

definition clip_bound :: "nat \<Rightarrow> int \<Rightarrow> nat" where
  "clip_bound n k = (if k < 0 then nat (max 0 (k + int n)) else min (nat k) n)"

definition py_slice :: "nat \<Rightarrow> int \<Rightarrow> int \<Rightarrow> nat \<times> nat" where
  "py_slice n lo hi = (clip_bound n lo, clip_bound n hi - clip_bound n lo)"

definition slice2 :: "'a array2 \<Rightarrow> int \<Rightarrow> int \<Rightarrow> int \<Rightarrow> int \<Rightarrow> 'a array2" where
  "slice2 a y_lo y_hi x_lo x_hi =
     (let (y0, h) = py_slice (nrows a) y_lo y_hi;
          (x0, w) = py_slice (ncols a) x_lo x_hi
      in \<lparr>nrows = h, ncols = w, cell = (\<lambda>j i. cell a (y0 + j) (x0 + i))\<rparr>)"

text \<open>
  \<^verbatim>\<open>_extract_array(array, shape, position)\<close>.  Both half widths are taken from
  \<^verbatim>\<open>shape[0]\<close>, as in the source.
\<close>

definition extract_array :: "'a array2 \<Rightarrow> nat \<times> nat \<Rightarrow> nat \<times> nat \<Rightarrow> 'a array2" where
  "extract_array array shp position =
     (let x_width = int (fst shp div 2);
          y_width = int (fst shp div 2);
          y_lo = int (fst position) - y_width;
          y_hi = int (fst position) + y_width + 1;
          x_lo = int (snd position) - x_width;
          x_hi = int (snd position) + x_width + 1
      in slice2 array y_lo y_hi x_lo x_hi)"

section \<open>Compiled helpers and SciPy routines\<close>

text \<open>
  The module imports \<^verbatim>\<open>_cash_cython\<close>, \<^verbatim>\<open>_cash_sum_cython\<close>,
  \<^verbatim>\<open>_amplitude_bounds_cython\<close>, \<^verbatim>\<open>_f_cash_root_cython\<close> and
  \<^verbatim>\<open>_x_best_leastsq\<close> from a compiled extension and calls SciPy's
  \<^verbatim>\<open>brentq\<close> and \<^verbatim>\<open>newton\<close>.  None of them is part of the module, so
  they are parameters of the model.  \<^verbatim>\<open>brentq\<close> stands for the call with
  \<^verbatim>\<open>maxiter=MAX_NITER, rtol=1e-3\<close> and \<^verbatim>\<open>newton\<close> for the call with
  \<^verbatim>\<open>maxiter=MAX_NITER, tol=1e-2\<close>; these are the only settings the module uses.
  \<^verbatim>\<open>fftconvolve\<close> stands for \<^verbatim>\<open>scipy.signal.fftconvolve(_, _, mode='same')\<close>.
  A root finder either returns (for \<^verbatim>\<open>brentq\<close>: the root and the iteration
  count) or raises one of the exceptions SciPy documents for it.
\<close>

datatype brentq_outcome = Converged npfloat int | RaisedRuntimeError | RaisedValueError

datatype newton_outcome = NewtonRoot npfloat | NewtonRuntimeError

record externals =
  cash_cython :: "farray \<Rightarrow> farray \<Rightarrow> farray"
  cash_sum_cython :: "farray \<Rightarrow> farray \<Rightarrow> npfloat"
  amplitude_bounds_cython :: "farray \<Rightarrow> farray \<Rightarrow> farray \<Rightarrow> npfloat \<times> npfloat \<times> npfloat"
  f_cash_root_cython :: "npfloat \<Rightarrow> farray \<Rightarrow> farray \<Rightarrow> farray \<Rightarrow> npfloat"
  x_best_leastsq :: "farray \<Rightarrow> farray \<Rightarrow> farray \<Rightarrow> farray \<Rightarrow> npfloat"
  brentq :: "(npfloat \<Rightarrow> npfloat) \<Rightarrow> npfloat \<Rightarrow> npfloat \<Rightarrow> brentq_outcome"
  newton :: "(npfloat \<Rightarrow> npfloat) \<Rightarrow> npfloat \<Rightarrow> newton_outcome"
  fftconvolve :: "farray \<Rightarrow> farray \<Rightarrow> farray"

section \<open>Pixel statistic and amplitude solvers\<close>

text \<open>\<^verbatim>\<open>f_cash(x, counts, background, model)\<close>.\<close>

definition f_cash ::
  "externals \<Rightarrow> npfloat \<Rightarrow> farray \<Rightarrow> farray \<Rightarrow> farray \<Rightarrow> pyerr + npfloat" where
  "f_cash ext x counts background model =
     bind_err (np_binop np_add background (map_array (np_mul (np_mul x FLUX_FACTOR)) model))
       (\<lambda>mu. Inr (cash_sum_cython ext counts mu))"

text \<open>\<^verbatim>\<open>_root_amplitude_brentq(counts, background, model)\<close>.\<close>

definition root_amplitude_brentq ::
  "externals \<Rightarrow> farray \<Rightarrow> farray \<Rightarrow> farray \<Rightarrow> npfloat \<times> int" where
  "root_amplitude_brentq ext counts background model =
     (case amplitude_bounds_cython ext counts background model of
        (amplitude_min, amplitude_max, amplitude_min_total) \<Rightarrow>
          if \<not> np_gt (np_sum counts) (Fin 0) then (amplitude_min_total, 0)
          else (case brentq ext (\<lambda>x. f_cash_root_cython ext x counts background model)
                       amplitude_min amplitude_max of
                  Converged x_root iterations \<Rightarrow> (py_max x_root amplitude_min_total, iterations)
                | RaisedRuntimeError \<Rightarrow> (NaN, MAX_NITER)
                | RaisedValueError \<Rightarrow> (NaN, MAX_NITER)))"

text \<open>
  \<^verbatim>\<open>_root_amplitude(counts, background, model, flux)\<close>: the Newton strategy.  It
  computes no bounds and does not look at the counts; a returned root is reported with
  iteration count 0.
\<close>

definition root_amplitude ::
  "externals \<Rightarrow> farray \<Rightarrow> farray \<Rightarrow> farray \<Rightarrow> npfloat \<Rightarrow> npfloat \<times> int" where
  "root_amplitude ext counts background model flux0 =
     (case newton ext (\<lambda>x. f_cash_root_cython ext x counts background model) flux0 of
        NewtonRoot x_root \<Rightarrow> (x_root, 0)
      | NewtonRuntimeError \<Rightarrow> (NaN, MAX_NITER))"

text \<open>
  \<^verbatim>\<open>_leastsq_iter_amplitude(counts, background, model)\<close>.  The loop
  \<^verbatim>\<open>for i in range(maxiter)\<close> is a recursion on the number of iterations left;
  \<open>i\<close> is the loop index.  When the loop is exhausted the last \<open>x\<close> is the current
  \<open>x_old\<close>, because the branch that continues the loop assigns \<^verbatim>\<open>x_old = x\<close>.
  The scalar \<open>x\<close> is treated as a NumPy scalar (no \<^verbatim>\<open>ZeroDivisionError\<close>).
\<close>

fun leastsq_loop ::
  "externals \<Rightarrow> farray \<Rightarrow> farray \<Rightarrow> farray \<Rightarrow> npfloat \<Rightarrow> npfloat \<Rightarrow>
   farray \<Rightarrow> npfloat \<Rightarrow> int \<Rightarrow> nat \<Rightarrow> pyerr + (npfloat \<times> int)" where
  "leastsq_loop ext counts background model rtol amplitude_min_total weights x_old i 0 =
     Inr (py_max (np_div x_old FLUX_FACTOR) amplitude_min_total, MAX_NITER)"
| "leastsq_loop ext counts background model rtol amplitude_min_total weights x_old i (Suc n) =
     (let x = x_best_leastsq ext counts background model weights
      in if np_lt (np_abs (np_div (np_sub x x_old) x)) rtol
         then Inr (py_max (np_div x FLUX_FACTOR) amplitude_min_total, i + 1)
         else bind_err (np_binop np_add (map_array (np_mul x) model) background)
                (\<lambda>weights'. leastsq_loop ext counts background model rtol amplitude_min_total
                               weights' x (i + 1) n))"

definition leastsq_iter_amplitude ::
  "externals \<Rightarrow> farray \<Rightarrow> farray \<Rightarrow> farray \<Rightarrow> pyerr + (npfloat \<times> int)" where
  "leastsq_iter_amplitude ext counts background model =
     (case amplitude_bounds_cython ext counts background model of
        (amplitude_min, amplitude_max, amplitude_min_total) \<Rightarrow>
          if \<not> np_gt (np_sum counts) (Fin 0) then Inr (amplitude_min_total, 0)
          else leastsq_loop ext counts background model (Fin (1 / 1000)) amplitude_min_total
                 (full (shape model) (Fin 1)) (Fin 0) 0 (nat MAX_NITER))"

text \<open>\<^verbatim>\<open>_compute_amplitude_err(x, counts, background, model)\<close>.\<close>

definition compute_amplitude_err ::
  "npfloat \<Rightarrow> farray \<Rightarrow> farray \<Rightarrow> farray \<Rightarrow> pyerr + npfloat" where
  "compute_amplitude_err x counts background model =
     bind_err (np_binop np_mul (map_array (\<lambda>m. np_mul m m) model) counts) (\<lambda>num.
     bind_err (np_binop np_add background (map_array (np_mul (np_mul x FLUX_FACTOR)) model)) (\<lambda>mu.
     bind_err (np_binop np_div num (map_array (\<lambda>m. np_mul m m) mu)) (\<lambda>stat.
       Inr (np_sqrt (np_div (Fin 1) (np_sum stat))))))"

text \<open>
  \<^verbatim>\<open>_compute_amplitude_err_profile(amplitude, counts, background, model, c_1)\<close>.
  Whether \<^verbatim>\<open>f_cash\<close> raises depends on the shapes only, not on \<open>x\<close>; if it
  does, \<^verbatim>\<open>brentq\<close> passes the \<^verbatim>\<open>ValueError\<close> on at its first evaluation and
  the handler turns it into NaN.
\<close>

definition compute_amplitude_err_profile ::
  "externals \<Rightarrow> npfloat \<Rightarrow> farray \<Rightarrow> farray \<Rightarrow> farray \<Rightarrow> npfloat \<Rightarrow> npfloat" where
  "compute_amplitude_err_profile ext amplitude counts background model c_1 =
     (case f_cash ext amplitude counts background model of
        Inl e \<Rightarrow> NaN
      | Inr v \<Rightarrow>
          (case brentq ext
                  (\<lambda>x. case f_cash ext x counts background model of
                         Inl e \<Rightarrow> NaN
                       | Inr c \<Rightarrow> np_sub (np_add c_1 (Fin 1)) c)
                  amplitude (np_add amplitude (Fin 10000)) of
             Converged result iterations \<Rightarrow> np_sub result amplitude
           | RaisedRuntimeError \<Rightarrow> NaN
           | RaisedValueError \<Rightarrow> NaN))"

section \<open>The value at one pixel\<close>

text \<open>
  \<^verbatim>\<open>_ts_value\<close> returns a dictionary on its main path and a 3-tuple on the
  threshold path.
\<close>

record pixel_result =
  px_ts :: npfloat
  px_flux :: npfloat
  px_niter :: int
  px_flux_err :: npfloat
  px_flux_err_profile :: npfloat

datatype ts_ret = TsTuple npfloat npfloat int | TsDict pixel_result

text \<open>
  \<^verbatim>\<open>flux[position]\<close>: \<^verbatim>\<open>flux\<close> is \<^verbatim>\<open>None\<close> unless the method is
  \<^verbatim>\<open>'root newton'\<close>, and subscripting \<^verbatim>\<open>None\<close> raises \<^verbatim>\<open>TypeError\<close>.
\<close>

definition subscript :: "farray option \<Rightarrow> nat \<times> nat \<Rightarrow> pyerr + npfloat" where
  "subscript a position =
     (case a of
        None \<Rightarrow> Inl TypeError
      | Some arr \<Rightarrow>
          if fst position < nrows arr \<and> snd position < ncols arr
          then Inr (cell arr (fst position) (snd position)) else Inl IndexError)"

text \<open>The dispatch on \<^verbatim>\<open>method\<close> in \<^verbatim>\<open>_ts_value\<close>.\<close>

definition fit_amplitude ::
  "externals \<Rightarrow> string \<Rightarrow> farray option \<Rightarrow> nat \<times> nat \<Rightarrow> farray \<Rightarrow> farray \<Rightarrow> farray \<Rightarrow>
   pyerr + (npfloat \<times> int)" where
  "fit_amplitude ext method flux0 position counts background model =
     (if method = ''root brentq'' then Inr (root_amplitude_brentq ext counts background model)
      else if method = ''root newton''
        then bind_err (subscript flux0 position)
               (\<lambda>seed. Inr (root_amplitude ext counts background model seed))
      else if method = ''leastsq iter'' then leastsq_iter_amplitude ext counts background model
      else Inl ValueError)"

text \<open>
  The threshold test of \<^verbatim>\<open>_ts_value\<close>: \<open>Some r\<close> is the early return, \<open>None\<close>
  means that the fit goes on.
\<close>

definition threshold_check ::
  "externals \<Rightarrow> npfloat option \<Rightarrow> farray option \<Rightarrow> nat \<times> nat \<Rightarrow> npfloat \<Rightarrow>
   farray \<Rightarrow> farray \<Rightarrow> farray \<Rightarrow> pyerr + ts_ret option" where
  "threshold_check ext threshold flux0 position c_0 counts background model =
     (case threshold of
        None \<Rightarrow> Inr None
      | Some thr \<Rightarrow>
          bind_err (subscript flux0 position) (\<lambda>seed.
          bind_err (f_cash ext seed counts background model) (\<lambda>c_1.
            if np_lt (np_sub c_0 c_1) thr
            then Inr (Some (TsTuple (np_sub c_0 c_1) (np_mul seed FLUX_FACTOR) 0))
            else Inr None)))"

definition ts_value ::
  "externals \<Rightarrow> nat \<times> nat \<Rightarrow> farray \<Rightarrow> farray \<Rightarrow> farray \<Rightarrow> farray \<Rightarrow> farray \<Rightarrow>
   farray option \<Rightarrow> string \<Rightarrow> npfloat option \<Rightarrow> pyerr + ts_ret" where
  "ts_value ext position counts exposure background c_0_image kernel_array flux0 method threshold =
     (let counts_sl = extract_array counts (shape kernel_array) position;
          background_sl = extract_array background (shape kernel_array) position;
          exposure_sl = extract_array exposure (shape kernel_array) position;
          c_0_sl = extract_array c_0_image (shape kernel_array) position
      in bind_err (np_binop np_mul exposure_sl kernel_array) (\<lambda>model.
         let c_0 = np_sum c_0_sl
         in bind_err (threshold_check ext threshold flux0 position c_0 counts_sl background_sl model)
              (\<lambda>early. case early of
                 Some r \<Rightarrow> Inr r
               | None \<Rightarrow>
                   bind_err (fit_amplitude ext method flux0 position counts_sl background_sl model)
                     (\<lambda>(amplitude, niter).
                   bind_err (f_cash ext amplitude counts_sl background_sl model) (\<lambda>c_1.
                   bind_err (compute_amplitude_err amplitude counts_sl background_sl model) (\<lambda>err.
                     Inr (TsDict
                       \<lparr>px_ts = np_mul (np_sub c_0 c_1) (np_sign amplitude),
                        px_flux = np_mul amplitude FLUX_FACTOR,
                        px_niter = niter,
                        px_flux_err = err,
                        px_flux_err_profile =
                          np_mul FLUX_FACTOR
                            (compute_amplitude_err_profile ext amplitude counts_sl background_sl
                               model c_1)\<rparr>)))))))"

section \<open>Arrays owned by the caller: the store\<close>

text \<open>
  NumPy arrays are mutable objects that several names can refer to.  The store maps an
  address to the array that lives there; \<open>next_free\<close> is the first address that has
  never been handed out.  An image list (\<^verbatim>\<open>SkyImageList\<close>) is the ordered list of
  its names, each with the address of the image's \<^verbatim>\<open>data\<close> array.
\<close>

record heap =
  cells :: "nat \<Rightarrow> farray option"
  next_free :: nat

type_synonym image_list = "(string \<times> nat) list"

definition alloc :: "heap \<Rightarrow> farray \<Rightarrow> nat \<times> heap" where
  "alloc h arr =
     (next_free h, h\<lparr>cells := (cells h)(next_free h \<mapsto> arr), next_free := Suc (next_free h)\<rparr>)"

definition store :: "heap \<Rightarrow> nat \<Rightarrow> farray \<Rightarrow> heap" where
  "store h a arr = h\<lparr>cells := (cells h)(a \<mapsto> arr)\<rparr>"

text \<open>Reading an address; the default is only there to make the read total.\<close>

definition deref :: "heap \<Rightarrow> nat \<Rightarrow> farray" where
  "deref h a = (case cells h a of Some arr \<Rightarrow> arr | None \<Rightarrow> full (0, 0) NaN)"

definition image_data :: "heap \<Rightarrow> image_list \<Rightarrow> string \<Rightarrow> farray option" where
  "image_data h images name =
     (case map_of images name of None \<Rightarrow> None | Some a \<Rightarrow> cells h a)"

section \<open>The estimator\<close>

text \<open>
  \<^verbatim>\<open>TSImageEstimator.__init__\<close>: the parameters are stored as given, after the check
  of \<^verbatim>\<open>method\<close>.  The kernel is represented by its array; \<open>None\<close> for
  \<open>p_downsample\<close> stands for \<^verbatim>\<open>'auto'\<close>.
\<close>

record estimator =
  est_kernel :: farray
  p_downsample :: "int option"
  p_method :: string
  p_parallel :: bool
  p_threshold :: "npfloat option"

definition TSImageEstimator_init ::
  "farray \<Rightarrow> int option \<Rightarrow> string \<Rightarrow> bool \<Rightarrow> npfloat option \<Rightarrow> pyerr + estimator" where
  "TSImageEstimator_init kernel_array downsample method parallel threshold =
     (if method \<notin> set [''root brentq'', ''root newton'', ''leastsq iter'']
      then Inl ValueError
      else Inr \<lparr>est_kernel = kernel_array, p_downsample = downsample, p_method = method,
                p_parallel = parallel, p_threshold = threshold\<rparr>)"

text \<open>
  \<^verbatim>\<open>_estimate_flux(self, images)\<close>.  Its body reads the names \<^verbatim>\<open>counts\<close>,
  \<^verbatim>\<open>background\<close>, \<^verbatim>\<open>exposure\<close> and \<^verbatim>\<open>kernel\<close>.  \<open>scope\<close> is the list of
  array-valued names that the body can resolve; a name that is not in scope raises
  \<^verbatim>\<open>NameError\<close>.
\<close>

definition lookup_name :: "(string \<times> 'a) list \<Rightarrow> string \<Rightarrow> pyerr + 'a" where
  "lookup_name scope name =
     (case map_of scope name of None \<Rightarrow> Inl NameError | Some v \<Rightarrow> Inr v)"

definition estimate_flux :: "externals \<Rightarrow> (string \<times> farray) list \<Rightarrow> pyerr + farray" where
  "estimate_flux ext scope =
     bind_err (lookup_name scope ''counts'') (\<lambda>counts.
     bind_err (lookup_name scope ''background'') (\<lambda>background.
     bind_err (np_binop np_sub counts background) (\<lambda>excess.
     bind_err (lookup_name scope ''exposure'') (\<lambda>exposure.
     bind_err (np_binop np_div excess exposure) (\<lambda>ratio.
       let flux1 = map_array (\<lambda>v. np_div v FLUX_FACTOR) ratio;
           flux2 = map_array (\<lambda>v. if np_isfinite v then v else Fin 0) flux1
       in bind_err (lookup_name scope ''kernel'') (\<lambda>kernel_array.
            Inr (map_array
                   (\<lambda>v. np_div v (np_sum (map_array (\<lambda>k. np_mul k k) kernel_array)))
                   (fftconvolve ext flux2 kernel_array))))))))"

text \<open>
  The scope in which the body of \<^verbatim>\<open>_estimate_flux\<close> runs.  The function's
  parameters are \<^verbatim>\<open>self\<close> and \<^verbatim>\<open>images\<close>, its only other local is the imported
  \<^verbatim>\<open>fftconvolve\<close>, and the module binds no global of any of the four names: none
  of them resolves.
\<close>

definition estimate_flux_scope :: "(string \<times> farray) list" where
  "estimate_flux_scope = []"

text \<open>
  \<^verbatim>\<open>_get_mask(self, exposure, background)\<close>.  The function changes its argument
  \<^verbatim>\<open>exposure\<close> in place; the model returns the changed array, whether the warning
  was logged, and the mask.
\<close>

definition get_mask :: "farray \<Rightarrow> farray \<Rightarrow> pyerr + (farray \<times> bool \<times> bool array2)" where
  "get_mask exposure background =
     bind_err (np_binop (\<and>) (map_array (\<lambda>b. np_eq b (Fin 0)) background)
                             (map_array (\<lambda>e. np_gt e (Fin 0)) exposure))
       (\<lambda>mask_sl.
          if np_any mask_sl
          then (if shape mask_sl \<noteq> shape exposure then Inl IndexError
                else let exposure' = exposure\<lparr>cell := (\<lambda>j i. if cell mask_sl j i then Fin 0
                                                             else cell exposure j i)\<rparr>
                     in Inr (exposure', True, map_array (\<lambda>e. np_gt e (Fin 0)) exposure'))
          else Inr (exposure, False, map_array (\<lambda>e. np_gt e (Fin 0)) exposure))"

text \<open>
  \<^verbatim>\<open>_get_positions(self, mask)\<close>.  \<^verbatim>\<open>range(lo, hi)\<close> is empty when \<open>hi\<close> is
  not above \<open>lo\<close>, also when \<open>hi\<close> is negative.
\<close>

definition get_positions :: "nat \<times> nat \<Rightarrow> bool array2 \<Rightarrow> (nat \<times> nat) list" where
  "get_positions kernel_shape mask_arr =
     (let x_min = snd kernel_shape div 2;
          x_max = int (ncols mask_arr) - int (snd kernel_shape div 2);
          y_min = fst kernel_shape div 2;
          y_max = int (nrows mask_arr) - int (fst kernel_shape div 2)
      in filter (\<lambda>(j, i). cell mask_arr j i)
           (List.product [y_min..<nat y_max] [x_min..<nat x_max]))"

text \<open>
  \<^verbatim>\<open>_parse_image_data(self, images)\<close>: \<^verbatim>\<open>astype(float)\<close> returns a new array
  each time.  The result is the addresses of the three new arrays in the order
  \<^verbatim>\<open>counts, exposure, background\<close>.
\<close>

definition parse_image_data :: "heap \<Rightarrow> image_list \<Rightarrow> heap \<times> (pyerr + nat \<times> nat \<times> nat)" where
  "parse_image_data h images =
     (case image_data h images ''counts'' of
        None \<Rightarrow> (h, Inl KeyError)
      | Some c \<Rightarrow>
          (case alloc h c of (counts, h1) \<Rightarrow>
          (case image_data h1 images ''background'' of
             None \<Rightarrow> (h1, Inl KeyError)
           | Some b \<Rightarrow>
               (case alloc h1 b of (background, h2) \<Rightarrow>
               (case image_data h2 images ''exposure'' of
                  None \<Rightarrow> (h2, Inl KeyError)
                | Some e \<Rightarrow>
                    (case alloc h2 e of (exposure, h3) \<Rightarrow>
                       if shape c \<noteq> shape b then (h3, Inl AssertionError)
                       else if shape c \<noteq> shape e then (h3, Inl AssertionError)
                       else (h3, Inr (counts, exposure, background))))))))"

text \<open>
  The output images of \<^verbatim>\<open>run\<close> with the default \<^verbatim>\<open>which='all'\<close>.  The
  run time that \<^verbatim>\<open>run\<close> attaches as metadata is not represented.
\<close>

record ts_images =
  img_ts :: farray
  img_sqrt_ts :: farray
  img_flux :: farray
  img_flux_err :: farray
  img_flux_err_profile :: farray
  img_niter :: farray

datatype image_name = N_ts | N_flux | N_flux_err | N_flux_err_profile | N_niter

fun get_image :: "image_name \<Rightarrow> ts_images \<Rightarrow> farray" where
  "get_image N_ts r = img_ts r"
| "get_image N_flux r = img_flux r"
| "get_image N_flux_err r = img_flux_err r"
| "get_image N_flux_err_profile r = img_flux_err_profile r"
| "get_image N_niter r = img_niter r"

fun put_image :: "image_name \<Rightarrow> farray \<Rightarrow> ts_images \<Rightarrow> ts_images" where
  "put_image N_ts a r = r\<lparr>img_ts := a\<rparr>"
| "put_image N_flux a r = r\<lparr>img_flux := a\<rparr>"
| "put_image N_flux_err a r = r\<lparr>img_flux_err := a\<rparr>"
| "put_image N_flux_err_profile a r = r\<lparr>img_flux_err_profile := a\<rparr>"
| "put_image N_niter a r = r\<lparr>img_niter := a\<rparr>"

text \<open>
  \<^verbatim>\<open>_[name]\<close> for one element of \<^verbatim>\<open>results\<close>: a dictionary gives the entry,
  a tuple cannot be subscripted with a string.
\<close>

fun get_item :: "image_name \<Rightarrow> ts_ret \<Rightarrow> pyerr + npfloat" where
  "get_item name (TsTuple a b c) = Inl TypeError"
| "get_item N_ts (TsDict d) = Inr (px_ts d)"
| "get_item N_flux (TsDict d) = Inr (px_flux d)"
| "get_item N_flux_err (TsDict d) = Inr (px_flux_err d)"
| "get_item N_flux_err_profile (TsDict d) = Inr (px_flux_err_profile d)"
| "get_item N_niter (TsDict d) = Inr (Fin (of_int (px_niter d)))"

text \<open>Mapping a function that can raise over a list: the first exception ends it.\<close>

fun map_err :: "('a \<Rightarrow> pyerr + 'b) \<Rightarrow> 'a list \<Rightarrow> pyerr + 'b list" where
  "map_err f [] = Inr []"
| "map_err f (x # xs) =
     bind_err (f x) (\<lambda>y. bind_err (map_err f xs) (\<lambda>ys. Inr (y # ys)))"

text \<open>
  The object bound to \<^verbatim>\<open>results\<close>.  \<^verbatim>\<open>pool.map\<close> returns a list.  The builtin
  \<^verbatim>\<open>map\<close> of Python 3 (the repository's \<^verbatim>\<open>modeling/models/core.py\<close> uses
  f-strings, so it runs on Python 3.6 or later) returns an iterator: nothing is computed
  until it is iterated, and what has been iterated is gone.  \<open>ResIter ps\<close> is the
  iterator whose remaining inputs are \<open>ps\<close>.
\<close>

datatype results_obj = ResList "ts_ret list" | ResIter "(nat \<times> nat) list"

text \<open>
  The comprehension \<^verbatim>\<open>[_[name] for _ in results]\<close>: the values, and
  \<^verbatim>\<open>results\<close> afterwards.
\<close>

fun comprehension ::
  "(nat \<times> nat \<Rightarrow> pyerr + ts_ret) \<Rightarrow> image_name \<Rightarrow> results_obj \<Rightarrow>
   pyerr + (npfloat list \<times> results_obj)" where
  "comprehension wrap name (ResList rs) =
     bind_err (map_err (get_item name) rs) (\<lambda>vs. Inr (vs, ResList rs))"
| "comprehension wrap name (ResIter ps) =
     bind_err (map_err (\<lambda>p. bind_err (wrap p) (get_item name)) ps) (\<lambda>vs. Inr (vs, ResIter []))"

text \<open>
  The assignment \<^verbatim>\<open>data[j, i] = values\<close> with index tuples \<^verbatim>\<open>j, i\<close> taken
  from the positions: the values must be as many as the positions, or a single one that
  is broadcast; otherwise NumPy raises \<^verbatim>\<open>ValueError\<close>.
\<close>

definition set_cell :: "farray \<Rightarrow> nat \<times> nat \<Rightarrow> npfloat \<Rightarrow> farray" where
  "set_cell a p v = a\<lparr>cell := (\<lambda>j i. if (j, i) = p then v else cell a j i)\<rparr>"

definition fancy_assign ::
  "farray \<Rightarrow> (nat \<times> nat) list \<Rightarrow> npfloat list \<Rightarrow> pyerr + farray" where
  "fancy_assign a positions vals =
     (if length vals = length positions
      then Inr (fold (\<lambda>(p, v) acc. set_cell acc p v) (zip positions vals) a)
      else if length vals = 1
      then Inr (fold (\<lambda>p acc. set_cell acc p (hd vals)) positions a)
      else Inl ValueError)"

text \<open>The loop \<^verbatim>\<open>for name in ['ts', 'flux', 'flux_err', 'flux_err_profile', 'niter']\<close>.\<close>

fun assign_names ::
  "(nat \<times> nat \<Rightarrow> pyerr + ts_ret) \<Rightarrow> (nat \<times> nat) list \<Rightarrow> image_name list \<Rightarrow>
   results_obj \<Rightarrow> ts_images \<Rightarrow> pyerr + ts_images" where
  "assign_names wrap positions [] results res = Inr res"
| "assign_names wrap positions (name # names) results res =
     bind_err (comprehension wrap name results) (\<lambda>(vals, results').
     bind_err (fancy_assign (get_image name res) positions vals) (\<lambda>a.
       assign_names wrap positions names results' (put_image name a res)))"

text \<open>\<^verbatim>\<open>np.where(ts > 0, np.sqrt(ts), -np.sqrt(-ts))\<close>.\<close>

definition sqrt_ts_value :: "npfloat \<Rightarrow> npfloat" where
  "sqrt_ts_value t = (if np_gt t (Fin 0) then np_sqrt t else np_neg (np_sqrt (np_neg t)))"

text \<open>
  \<^verbatim>\<open>images.check_required(['counts', 'background', 'exposure'])\<close>; the method
  belongs to \<^verbatim>\<open>SkyImageList\<close>, which is not part of the module.
  Modelled from the spec: the run fails if one of the three images is missing.
\<close>

definition check_required :: "heap \<Rightarrow> image_list \<Rightarrow> string list \<Rightarrow> pyerr + unit" where
  "check_required h images names =
     (if \<forall>n \<in> set names. image_data h images n \<noteq> None then Inr () else Inl MissingImage)"

text \<open>
  The part of \<^verbatim>\<open>run\<close> after the mask: the positions, the seed flux, the values
  at all positions, and the assembly of the output images.
\<close>

definition run_positions ::
  "externals \<Rightarrow> estimator \<Rightarrow> farray \<Rightarrow> farray \<Rightarrow> farray \<Rightarrow> farray \<Rightarrow> bool array2 \<Rightarrow>
   ts_images \<Rightarrow> pyerr + ts_images" where
  "run_positions ext est counts exposure background c_0_image mask_arr result =
     (let positions = get_positions (shape (est_kernel est)) mask_arr
      in bind_err (if p_method est = ''root newton''
                   then bind_err (estimate_flux ext estimate_flux_scope) (\<lambda>f. Inr (Some f))
                   else Inr None) (\<lambda>flux0.
         let wrap = (\<lambda>position. ts_value ext position counts exposure background c_0_image
                                  (est_kernel est) flux0 (p_method est) (p_threshold est))
         in bind_err (if p_parallel est
                      then bind_err (map_err wrap positions) (\<lambda>rs. Inr (ResList rs))
                      else Inr (ResIter positions)) (\<lambda>results.
            bind_err (if positions = [] then Inl ValueError else Inr ()) (\<lambda>u.
            bind_err (assign_names wrap positions
                        [N_ts, N_flux, N_flux_err, N_flux_err_profile, N_niter] results result)
              (\<lambda>res. Inr (res\<lparr>img_sqrt_ts := map_array sqrt_ts_value (img_ts res)\<rparr>))))))"

text \<open>
  \<^verbatim>\<open>TSImageEstimator.run(images)\<close>.  The result is the store afterwards, whether
  the warning of \<^verbatim>\<open>_get_mask\<close> was logged, and the images or the exception.
\<close>

definition run ::
  "externals \<Rightarrow> estimator \<Rightarrow> heap \<Rightarrow> image_list \<Rightarrow> heap \<times> bool \<times> (pyerr + ts_images)" where
  "run ext est h images =
     (case check_required h images [''counts'', ''background'', ''exposure''] of
        Inl e \<Rightarrow> (h, False, Inl e)
      | Inr u \<Rightarrow>
          (let blank = full (shape (case image_data h images ''counts'' of
                                      Some c \<Rightarrow> c | None \<Rightarrow> full (0, 0) NaN)) NaN;
               result = \<lparr>img_ts = blank, img_sqrt_ts = blank, img_flux = blank,
                         img_flux_err = blank, img_flux_err_profile = blank,
                         img_niter = blank\<rparr>
           in case parse_image_data h images of
                (h1, Inl e) \<Rightarrow> (h1, False, Inl e)
              | (h1, Inr (counts, exposure, background)) \<Rightarrow>
                  (let c_0_image = cash_cython ext (deref h1 counts) (deref h1 background)
                   in case get_mask (deref h1 exposure) (deref h1 background) of
                        Inl e \<Rightarrow> (h1, False, Inl e)
                      | Inr (exposure', warned, mask_arr) \<Rightarrow>
                          (let h2 = store h1 exposure exposure'
                           in (h2, warned,
                               run_positions ext est (deref h2 counts) (deref h2 exposure)
                                 (deref h2 background) c_0_image mask_arr result)))))"

section \<open>The multiscale driver\<close>

text \<open>
  \<^verbatim>\<open>compute_ts_image_multiscale\<close>.  The methods \<^verbatim>\<open>pad\<close> and
  \<^verbatim>\<open>downsample\<close> of an image are not part of the module; each returns a new image.
  \<open>pad_image\<close> stands for \<^verbatim>\<open>pad(symmetric_crop_pad_width(shape, shape_2N(shape)))\<close>
  and \<open>downsample_image factor k\<close> for \<^verbatim>\<open>downsample(factor, funcs[k])\<close>.  The
  construction of the kernel does not touch any image; of it the model keeps the two
  exceptions it can raise before the images are used.
\<close>

record driver_externals =
  pad_image :: "nat \<times> nat \<Rightarrow> farray \<Rightarrow> farray"
  downsample_image :: "real \<Rightarrow> nat \<Rightarrow> farray \<Rightarrow> farray"

text \<open>
  The downsampling factor: \<^verbatim>\<open>np.select\<close> takes the first condition that holds,
  \<open>None\<close> for \<open>downsample\<close> is \<^verbatim>\<open>'auto'\<close>.
\<close>

definition select_factor :: "npfloat \<Rightarrow> npfloat \<Rightarrow> int option \<Rightarrow> int" where
  "select_factor scale binsz downsample =
     (case downsample of
        Some d \<Rightarrow> d
      | None \<Rightarrow>
          if np_lt scale (np_mul (Fin 5) binsz) then 1
          else if np_lt scale (np_mul (Fin 10) binsz) then 2
          else if np_lt scale (np_mul (Fin 20) binsz) then 4
          else if np_lt scale (np_mul (Fin 40) binsz) then 4
          else 8)"

text \<open>
  The loop \<^verbatim>\<open>for name, func in zip(images.names, funcs)\<close> that fills
  \<^verbatim>\<open>images2\<close>; \<open>k\<close> is the index into \<^verbatim>\<open>funcs\<close>, which has five entries.
  Without downsampling \<^verbatim>\<open>images2[name]\<close> is the very image of the caller.
\<close>

fun build_images2 ::
  "driver_externals \<Rightarrow> bool \<Rightarrow> real \<Rightarrow> nat \<times> nat \<Rightarrow> heap \<Rightarrow> image_list \<Rightarrow> nat \<Rightarrow>
   (string \<Rightarrow> nat option) \<Rightarrow> heap \<times> (string \<Rightarrow> nat option)" where
  "build_images2 dx downsampled factor shp h [] k images2 = (h, images2)"
| "build_images2 dx downsampled factor shp h ((name, a) # rest) k images2 =
     (if 5 \<le> k then (h, images2)
      else if downsampled
      then (case alloc h (pad_image dx shp (deref h a)) of (a1, h1) \<Rightarrow>
            (case alloc h1 (downsample_image dx factor k (deref h1 a1)) of (a2, h2) \<Rightarrow>
               build_images2 dx downsampled factor shp h2 rest (Suc k) (images2(name \<mapsto> a2))))
      else build_images2 dx downsampled factor shp h rest (Suc k) (images2(name \<mapsto> a)))"

text \<open>
  \<^verbatim>\<open>images2['background'].data += images2['model'].data\<close>: the array of the
  background image is changed in place.
\<close>

definition add_model_in_place :: "heap \<Rightarrow> (string \<Rightarrow> nat option) \<Rightarrow> heap \<times> (pyerr + unit)" where
  "add_model_in_place h images2 =
     (case images2 ''background'' of
        None \<Rightarrow> (h, Inl KeyError)
      | Some b \<Rightarrow>
          (case images2 ''model'' of
             None \<Rightarrow> (h, Inl KeyError)
           | Some m \<Rightarrow>
               (case np_binop np_add (deref h b) (deref h m) of
                  Inl e \<Rightarrow> (h, Inl e)
                | Inr summed \<Rightarrow>
                    if shape summed \<noteq> shape (deref h b) then (h, Inl ValueError)
                    else (store h b summed, Inr ()))))"

text \<open>
  One pass of the loop over \<^verbatim>\<open>scales\<close>.  The name \<^verbatim>\<open>compute_ts_image\<close>
  that the pass calls is neither defined nor imported in the module, so the call raises
  \<^verbatim>\<open>NameError\<close> and the rest of the pass is never reached.
\<close>

definition scale_pass ::
  "driver_externals \<Rightarrow> heap \<Rightarrow> image_list \<Rightarrow> npfloat \<Rightarrow> nat \<times> nat \<Rightarrow> npfloat \<Rightarrow>
   int option \<Rightarrow> bool \<Rightarrow> string \<Rightarrow> npfloat option \<Rightarrow> heap \<times> (pyerr + ts_images)" where
  "scale_pass dx h images binsz shp scale downsample residual morphology width =
     (let factor0 = select_factor scale binsz downsample;
          downsampled = (factor0 \<noteq> 1);
          factor = (if downsampled \<and> morphology = ''Shell2D''
                    then real_of_int factor0 / 2 else real_of_int factor0)
      in case build_images2 dx downsampled factor shp h images 0 Map.empty of
           (h1, images2) \<Rightarrow>
             if np_gt scale (Fin 0) \<and> morphology \<noteq> ''Gaussian2D'' \<and> morphology \<noteq> ''Shell2D''
             then (h1, Inl ValueError)
             else if np_gt scale (Fin 0) \<and> morphology = ''Shell2D'' \<and> width = None
             then (h1, Inl TypeError)
             else (case (if residual then add_model_in_place h1 images2 else (h1, Inr ())) of
                     (h2, Inl e) \<Rightarrow> (h2, Inl e)
                   | (h2, Inr u) \<Rightarrow> (h2, Inl NameError)))"

fun scale_loop ::
  "driver_externals \<Rightarrow> heap \<Rightarrow> image_list \<Rightarrow> npfloat \<Rightarrow> nat \<times> nat \<Rightarrow> npfloat list \<Rightarrow>
   int option \<Rightarrow> bool \<Rightarrow> string \<Rightarrow> npfloat option \<Rightarrow> ts_images list \<Rightarrow>
   heap \<times> (pyerr + ts_images list)" where
  "scale_loop dx h images binsz shp [] downsample residual morphology width acc = (h, Inr acc)"
| "scale_loop dx h images binsz shp (scale # scales) downsample residual morphology width acc =
     (case scale_pass dx h images binsz shp scale downsample residual morphology width of
        (h1, Inl e) \<Rightarrow> (h1, Inl e)
      | (h1, Inr r) \<Rightarrow>
          scale_loop dx h1 images binsz shp scales downsample residual morphology width
            (acc @ [r]))"

text \<open>
  \<open>binsz\<close> is \<^verbatim>\<open>abs(images['counts'].wcs.wcs.cdelt[0])\<close>, which the image
  supplies.
\<close>

definition compute_ts_image_multiscale ::
  "driver_externals \<Rightarrow> heap \<Rightarrow> image_list \<Rightarrow> npfloat \<Rightarrow> npfloat list \<Rightarrow> int option \<Rightarrow>
   bool \<Rightarrow> string \<Rightarrow> npfloat option \<Rightarrow> heap \<times> (pyerr + ts_images list)" where
  "compute_ts_image_multiscale dx h images binsz scales downsample residual morphology width =
     (case image_data h images ''counts'' of
        None \<Rightarrow> (h, Inl KeyError)
      | Some c \<Rightarrow>
          scale_loop dx h images binsz (shape c) scales downsample residual morphology width [])"

section \<open>The maximum over scales\<close>

text \<open>
  \<^verbatim>\<open>compute_maximum_ts_image(ts_image_results)\<close>.  Each element of the list
  supplies \<^verbatim>\<open>ts\<close>, \<^verbatim>\<open>niter\<close>, \<^verbatim>\<open>amplitude\<close> and \<^verbatim>\<open>scale\<close>.  The
  conversions of the returned arrays to \<^verbatim>\<open>float32\<close> and \<^verbatim>\<open>int16\<close> are not
  represented.
\<close>

record scale_result =
  sr_ts :: farray
  sr_niter :: farray
  sr_amplitude :: farray
  sr_scale :: npfloat

text \<open>\<^verbatim>\<open>np.dstack\<close> needs at least one array, and arrays of one shape.\<close>

definition dstack :: "farray list \<Rightarrow> pyerr + farray list" where
  "dstack arrs =
     (case arrs of
        [] \<Rightarrow> Inl ValueError
      | a # rest \<Rightarrow> if \<forall>b \<in> set rest. shape b = shape a then Inr arrs else Inl ValueError)"

text \<open>\<^verbatim>\<open>np.max\<close> along the scale axis; a NaN among the values makes the result NaN.\<close>

definition np_maximum :: "npfloat \<Rightarrow> npfloat \<Rightarrow> npfloat" where
  "np_maximum a b = (if a = NaN \<or> b = NaN then NaN else if np_gt b a then b else a)"

definition np_max_axis2 :: "farray list \<Rightarrow> farray" where
  "np_max_axis2 arrs =
     \<lparr>nrows = nrows (hd arrs), ncols = ncols (hd arrs),
      cell = (\<lambda>j i. foldl np_maximum (cell (hd arrs) j i) (map (\<lambda>a. cell a j i) (tl arrs)))\<rparr>"

text \<open>
  The arrays \<^verbatim>\<open>scale_max\<close>, \<^verbatim>\<open>niter_max\<close> and \<^verbatim>\<open>amplitude_max\<close> that the
  loop over the scales updates.
\<close>

record max_arrays =
  scale_max :: farray
  niter_max :: farray
  amplitude_max :: farray

definition where_equal :: "farray \<Rightarrow> farray \<Rightarrow> nat \<Rightarrow> nat \<Rightarrow> bool" where
  "where_equal ts_k ts_max j i =
     (j < nrows ts_max \<and> i < ncols ts_max \<and> np_eq (cell ts_k j i) (cell ts_max j i))"

definition index_in_bounds :: "farray \<Rightarrow> farray \<Rightarrow> farray \<Rightarrow> bool" where
  "index_in_bounds ts_k ts_max arr =
     (\<forall>(j, i) \<in> set (List.product [0..<nrows ts_max] [0..<ncols ts_max]).
        where_equal ts_k ts_max j i \<longrightarrow> j < nrows arr \<and> i < ncols arr)"

definition masked_write :: "(nat \<Rightarrow> nat \<Rightarrow> bool) \<Rightarrow> (nat \<Rightarrow> nat \<Rightarrow> npfloat) \<Rightarrow> farray \<Rightarrow> farray" where
  "masked_write hit src dst = dst\<lparr>cell := (\<lambda>j i. if hit j i then src j i else cell dst j i)\<rparr>"

text \<open>
  The loop \<^verbatim>\<open>for idx_scale, scale in enumerate(scales)\<close>; the list holds, for
  each remaining scale, its \<^verbatim>\<open>ts\<close>, \<^verbatim>\<open>niter\<close> and \<^verbatim>\<open>amplitude\<close> layers.
\<close>

fun max_loop :: "farray \<Rightarrow> scale_result list \<Rightarrow> max_arrays \<Rightarrow> pyerr + max_arrays" where
  "max_loop ts_max [] acc = Inr acc"
| "max_loop ts_max (r # rs) acc =
     (let hit = where_equal (sr_ts r) ts_max
      in if \<not> index_in_bounds (sr_ts r) ts_max (sr_niter r) then Inl IndexError
         else if \<not> index_in_bounds (sr_ts r) ts_max (sr_amplitude r) then Inl IndexError
         else max_loop ts_max rs
                \<lparr>scale_max = masked_write hit (\<lambda>j i. sr_scale r) (scale_max acc),
                 niter_max = masked_write hit (cell (sr_niter r)) (niter_max acc),
                 amplitude_max = masked_write hit (cell (sr_amplitude r)) (amplitude_max acc)\<rparr>)"

text \<open>The locals \<^verbatim>\<open>ts_max\<close> and the three arrays when the loop has ended.\<close>

definition maximum_arrays :: "scale_result list \<Rightarrow> pyerr + (farray \<times> max_arrays)" where
  "maximum_arrays ts_image_results =
     bind_err (dstack (map sr_ts ts_image_results)) (\<lambda>ts_layers.
     bind_err (dstack (map sr_niter ts_image_results)) (\<lambda>niter_layers.
     bind_err (dstack (map sr_amplitude ts_image_results)) (\<lambda>amplitude_layers.
       let ts_max = np_max_axis2 ts_layers;
           zeros = full (shape ts_max) (Fin 0)
       in bind_err (max_loop ts_max ts_image_results
                      \<lparr>scale_max = zeros, niter_max = zeros, amplitude_max = zeros\<rparr>)
            (\<lambda>acc. Inr (ts_max, acc)))))"

text \<open>
  The returned image list holds \<^verbatim>\<open>ts\<close>, \<^verbatim>\<open>niter\<close> and \<^verbatim>\<open>amplitude\<close>;
  \<^verbatim>\<open>scale_max\<close> is not among the returned images.
\<close>

record max_images =
  mx_ts :: farray
  mx_niter :: farray
  mx_amplitude :: farray

definition compute_maximum_ts_image :: "scale_result list \<Rightarrow> pyerr + max_images" where
  "compute_maximum_ts_image ts_image_results =
     bind_err (maximum_arrays ts_image_results) (\<lambda>(ts_max, acc).
       Inr \<lparr>mx_ts = ts_max, mx_niter = niter_max acc, mx_amplitude = amplitude_max acc\<rparr>)"

section \<open>A concrete instance of the helpers\<close>

text \<open>
  All theorems below hold for every choice of the helper routines.  To run the model on
  concrete images one instance is fixed here.

  Modelled from the spec: the compiled Cash statistic, which the spec gives as
  \<^verbatim>\<open>2*(model - counts*ln(model))\<close> per pixel, summed over the slice by
  \<^verbatim>\<open>_cash_sum_cython\<close>; \<^verbatim>\<open>_f_cash_root_cython\<close> is the derivative of the
  summed statistic with respect to the amplitude, up to a constant factor.  The bounds
  are a fixed bracket, the least-squares estimate is the plain weighted quotient, and
  the two root finders are one-step stand-ins: \<open>brentq_ref\<close> raises
  \<^verbatim>\<open>ValueError\<close> when the function has one sign at both ends of the bracket (as
  SciPy does), accepts the midpoint when it is a root, and otherwise reports that it
  did not converge; \<open>newton_ref\<close> accepts the seed when it is a root and otherwise
  reports that it did not converge.
\<close>

fun np_log :: "npfloat \<Rightarrow> npfloat" where
  "np_log (Fin x) = (if 0 < x then Fin (ln x) else if x = 0 then NInf else NaN)"
| "np_log PInf = PInf"
| "np_log NInf = NaN"
| "np_log NaN = NaN"

definition cash :: "npfloat \<Rightarrow> npfloat \<Rightarrow> npfloat" where
  "cash c mu = np_mul (Fin 2) (np_sub mu (np_mul c (np_log mu)))"

definition cash_ref :: "farray \<Rightarrow> farray \<Rightarrow> farray" where
  "cash_ref counts mu =
     \<lparr>nrows = nrows counts, ncols = ncols counts,
      cell = (\<lambda>j i. cash (cell counts j i) (cell mu j i))\<rparr>"

definition f_cash_root_ref :: "npfloat \<Rightarrow> farray \<Rightarrow> farray \<Rightarrow> farray \<Rightarrow> npfloat" where
  "f_cash_root_ref x counts background model =
     np_sum \<lparr>nrows = nrows counts, ncols = ncols counts,
             cell = (\<lambda>j i. np_mul (cell model j i)
                        (np_sub (np_div (cell counts j i)
                                   (np_add (cell background j i)
                                      (np_mul (np_mul x FLUX_FACTOR) (cell model j i))))
                                (Fin 1)))\<rparr>"

definition x_best_ref :: "farray \<Rightarrow> farray \<Rightarrow> farray \<Rightarrow> farray \<Rightarrow> npfloat" where
  "x_best_ref counts background model weights =
     np_div
       (np_sum \<lparr>nrows = nrows counts, ncols = ncols counts,
                cell = (\<lambda>j i. np_div (np_mul (cell model j i)
                                          (np_sub (cell counts j i) (cell background j i)))
                                  (cell weights j i))\<rparr>)
       (np_sum \<lparr>nrows = nrows counts, ncols = ncols counts,
                cell = (\<lambda>j i. np_div (np_mul (cell model j i) (cell model j i))
                                  (cell weights j i))\<rparr>)"

definition brentq_ref :: "(npfloat \<Rightarrow> npfloat) \<Rightarrow> npfloat \<Rightarrow> npfloat \<Rightarrow> brentq_outcome" where
  "brentq_ref f a b =
     (if np_gt (np_mul (f a) (f b)) (Fin 0) then RaisedValueError
      else if f (np_div (np_add a b) (Fin 2)) = Fin 0
      then Converged (np_div (np_add a b) (Fin 2)) 1
      else RaisedRuntimeError)"

definition newton_ref :: "(npfloat \<Rightarrow> npfloat) \<Rightarrow> npfloat \<Rightarrow> newton_outcome" where
  "newton_ref f x0 = (if f x0 = Fin 0 then NewtonRoot x0 else NewtonRuntimeError)"

definition ext_ref :: externals where
  "ext_ref =
     \<lparr>cash_cython = cash_ref,
      cash_sum_cython = (\<lambda>counts mu. np_sum (cash_ref counts mu)),
      amplitude_bounds_cython = (\<lambda>counts background model. (Fin (- 1), Fin 1, Fin (- 1))),
      f_cash_root_cython = f_cash_root_ref,
      x_best_leastsq = x_best_ref,
      brentq = brentq_ref,
      newton = newton_ref,
      fftconvolve = (\<lambda>a k. a)\<rparr>"

text \<open>Images of one pixel, a kernel of one pixel, and a store that holds three images.\<close>

definition pixel :: "npfloat \<Rightarrow> farray" where
  "pixel v = full (1, 1) v"

definition heap3 :: "npfloat \<Rightarrow> npfloat \<Rightarrow> npfloat \<Rightarrow> heap" where
  "heap3 c b e =
     \<lparr>cells = [0 \<mapsto> pixel c, 1 \<mapsto> pixel b, 2 \<mapsto> pixel e], next_free = 3\<rparr>"

definition images3 :: image_list where
  "images3 = [(''counts'', 0), (''background'', 1), (''exposure'', 2)]"

definition estimator_ref :: "string \<Rightarrow> bool \<Rightarrow> npfloat option \<Rightarrow> estimator" where
  "estimator_ref method parallel threshold =
     \<lparr>est_kernel = pixel (Fin 1), p_downsample = None, p_method = method,
      p_parallel = parallel, p_threshold = threshold\<rparr>"

text \<open>Row-major order on pixel coordinates \<open>(row, column)\<close>.\<close>

definition row_major :: "nat \<times> nat \<Rightarrow> nat \<times> nat \<Rightarrow> bool" where
  "row_major p q = (fst p < fst q \<or> (fst p = fst q \<and> snd p < snd q))"

text \<open>An image of one row and two columns.\<close>

definition row2 :: "npfloat \<Rightarrow> npfloat \<Rightarrow> farray" where
  "row2 a b = \<lparr>nrows = 1, ncols = 2, cell = (\<lambda>j i. if i = 0 then a else b)\<rparr>"

section \<open>Basic facts about arrays\<close>

lemmas array_defs = full_def pixel_def shape_def map_array_def entries_def np_sum_def
  np_any_def bind_err_def bc_axis_def bc_index_def np_binop_def clip_bound_def py_slice_def
  slice2_def extract_array_def np_sub_def np_lt_def np_eq_def py_max_def FLUX_FACTOR_def
  MAX_NITER_def

lemma bc_index_lt: "k < n \<Longrightarrow> bc_index n k = k"
  by (auto simp: bc_index_def)

lemma set_entries:
  "set (entries a) = {v. \<exists>j i. j < nrows a \<and> i < ncols a \<and> v = cell a j i}"
  by (auto simp: entries_def) blast

lemma np_any_iff: "np_any a \<longleftrightarrow> (\<exists>j<nrows a. \<exists>i<ncols a. cell a j i)"
  by (auto simp: np_any_def set_entries)

section \<open>The zero-count floor\<close>

text \<open>
  C1 (as amended).  For every pixel slice whose counts sum to zero, the strategies
  \<^verbatim>\<open>'root brentq'\<close> and \<^verbatim>\<open>'leastsq iter'\<close> return the lower bound
  \<^verbatim>\<open>amplitude_min_total\<close> computed by \<^verbatim>\<open>_amplitude_bounds_cython\<close>, with
  iteration count 0, whatever the root finder or the least-squares estimate would do.
\<close>

theorem zero_count_floor:
  assumes "np_sum counts = Fin 0"
  shows "root_amplitude_brentq ext counts background model =
           (snd (snd (amplitude_bounds_cython ext counts background model)), 0)
       \<and> leastsq_iter_amplitude ext counts background model =
           Inr (snd (snd (amplitude_bounds_cython ext counts background model)), 0)"
  using assms
  by (simp add: root_amplitude_brentq_def leastsq_iter_amplitude_def split: prod.splits)

theorem zero_count_floor_witness:
  "np_sum (pixel (Fin 0)) = Fin 0
   \<and> root_amplitude_brentq ext_ref (pixel (Fin 0)) (pixel (Fin 1)) (pixel (Fin 1)) = (Fin (- 1), 0)
   \<and> leastsq_iter_amplitude ext_ref (pixel (Fin 0)) (pixel (Fin 1)) (pixel (Fin 1))
       = Inr (Fin (- 1), 0)"
proof -
  have h: "np_sum (pixel (Fin 0)) = Fin 0"
    by (simp add: array_defs)
  show ?thesis
    using h zero_count_floor [OF h, of ext_ref "pixel (Fin 1)" "pixel (Fin 1)"]
    by (simp add: ext_ref_def)
qed

text \<open>
  The Newton strategy has no such test: on a slice without counts it reports what the
  Newton iteration reports.  Here the iteration does not converge, and the result is
  NaN with the iteration cap, not the lower bound with 0.
\<close>

theorem zero_count_newton_counterexample:
  "np_sum (pixel (Fin 0)) = Fin 0
   \<and> root_amplitude ext_ref (pixel (Fin 0)) (pixel (Fin 1)) (pixel (Fin 1)) (Fin 0)
       = (NaN, MAX_NITER)
   \<and> root_amplitude ext_ref (pixel (Fin 0)) (pixel (Fin 1)) (pixel (Fin 1)) (Fin 0)
       \<noteq> (snd (snd (amplitude_bounds_cython ext_ref (pixel (Fin 0)) (pixel (Fin 1))
                       (pixel (Fin 1)))), 0)"
  by (simp add: root_amplitude_def ext_ref_def newton_ref_def f_cash_root_ref_def array_defs)

text \<open>The result of the Newton strategy does not depend on the bounds at all.\<close>

lemma root_amplitude_ignores_bounds:
  "root_amplitude (ext\<lparr>amplitude_bounds_cython := bounds\<rparr>) counts background model seed
     = root_amplitude ext counts background model seed"
  by (simp add: root_amplitude_def)

section \<open>Mask and candidate positions\<close>

lemma sorted_wrt_product:
  "sorted_wrt (<) xs \<Longrightarrow> sorted_wrt (<) ys \<Longrightarrow> sorted_wrt row_major (List.product xs ys)"
proof (induction xs)
  case Nil
  then show ?case by simp
next
  case (Cons x xs)
  have "sorted_wrt row_major (map (Pair x) ys)"
    using Cons.prems(2) by (simp add: sorted_wrt_map row_major_def)
  moreover have "sorted_wrt row_major (List.product xs ys)"
    using Cons by simp
  moreover have "\<forall>p \<in> set (map (Pair x) ys). \<forall>q \<in> set (List.product xs ys). row_major p q"
    using Cons.prems(1) by (auto simp: row_major_def)
  ultimately show ?case by (simp add: sorted_wrt_append)
qed

lemma sorted_wrt_get_positions: "sorted_wrt row_major (get_positions ks m)"
  unfolding get_positions_def Let_def
  by (intro sorted_wrt_filter sorted_wrt_product) (simp_all add: sorted_wrt_upt)

lemma set_get_positions:
  "set (get_positions ks m) =
     {(j, i). fst ks div 2 \<le> j \<and> int j < int (nrows m) - int (fst ks div 2) \<and>
              snd ks div 2 \<le> i \<and> int i < int (ncols m) - int (snd ks div 2) \<and> cell m j i}"
  by (auto simp: get_positions_def Let_def)

lemma get_mask_same_shape:
  assumes "shape exposure = shape background"
  shows "\<exists>exposure' warned mask_arr.
     get_mask exposure background = Inr (exposure', warned, mask_arr) \<and>
     shape exposure' = shape exposure \<and> shape mask_arr = shape exposure \<and>
     (\<forall>j<nrows exposure. \<forall>i<ncols exposure.
        cell exposure' j i =
          (if np_gt (cell exposure j i) (Fin 0) \<and> np_eq (cell background j i) (Fin 0)
           then Fin 0 else cell exposure j i) \<and>
        cell mask_arr j i = np_gt (cell exposure' j i) (Fin 0)) \<and>
     (warned \<longleftrightarrow> (\<exists>j<nrows exposure. \<exists>i<ncols exposure.
         np_gt (cell exposure j i) (Fin 0) \<and> np_eq (cell background j i) (Fin 0)))"
proof -
  have s: "nrows background = nrows exposure" "ncols background = ncols exposure"
    using assms by (simp_all add: shape_def)
  show ?thesis
    using s
    apply (simp add: get_mask_def np_binop_def bc_axis_def bind_err_def np_any_iff
        map_array_def shape_def)
    apply (auto simp: bc_index_lt)
    apply blast
    done
qed

lemma sorted_row_major_singleton:
  assumes "sorted_wrt row_major xs" "set xs = {p}"
  shows "xs = [p]"
proof -
  have "distinct xs"
    using assms(1) by (induction xs) (auto simp: row_major_def)
  then have "length xs = card (set xs)"
    by (simp add: distinct_card)
  then have "length xs = 1"
    using assms(2) by simp
  then show ?thesis
    using assms(2) by (cases xs) auto
qed

text \<open>
  C7.  Every pixel with exposure > 0 and background == 0 has its exposure set to zero in
  the array that \<^verbatim>\<open>_get_mask\<close> is given (every other pixel keeps its exposure),
  the warning is logged exactly when there is such a pixel, and no exception is raised.
  For a kernel of shape (kernel_height, kernel_width), the positions are exactly the
  pixels with exposure > 0 after the correction whose row lies in
  [kernel_height // 2, image_height - kernel_height // 2) and whose column lies in
  [kernel_width // 2, image_width - kernel_width // 2), in row-major order.  The shapes
  of the two arrays are equal because \<^verbatim>\<open>_parse_image_data\<close> asserts it.
\<close>

theorem anomaly_mask_positions:
  assumes "shape exposure = shape background"
  shows "\<exists>exposure' warned mask_arr.
     get_mask exposure background = Inr (exposure', warned, mask_arr) \<and>
     (\<forall>j<nrows exposure. \<forall>i<ncols exposure.
        cell exposure' j i =
          (if np_gt (cell exposure j i) (Fin 0) \<and> np_eq (cell background j i) (Fin 0)
           then Fin 0 else cell exposure j i)) \<and>
     (warned \<longleftrightarrow> (\<exists>j<nrows exposure. \<exists>i<ncols exposure.
         np_gt (cell exposure j i) (Fin 0) \<and> np_eq (cell background j i) (Fin 0))) \<and>
     set (get_positions kernel_shape mask_arr) =
       {(j, i). fst kernel_shape div 2 \<le> j \<and>
                int j < int (nrows exposure) - int (fst kernel_shape div 2) \<and>
                snd kernel_shape div 2 \<le> i \<and>
                int i < int (ncols exposure) - int (snd kernel_shape div 2) \<and>
                np_gt (cell exposure' j i) (Fin 0)} \<and>
     sorted_wrt row_major (get_positions kernel_shape mask_arr)"
proof -
  obtain exposure' warned mask_arr where
    g: "get_mask exposure background = Inr (exposure', warned, mask_arr)"
    and sm: "shape mask_arr = shape exposure"
    and cells: "\<forall>j<nrows exposure. \<forall>i<ncols exposure.
        cell exposure' j i =
          (if np_gt (cell exposure j i) (Fin 0) \<and> np_eq (cell background j i) (Fin 0)
           then Fin 0 else cell exposure j i) \<and>
        cell mask_arr j i = np_gt (cell exposure' j i) (Fin 0)"
    and w: "warned \<longleftrightarrow> (\<exists>j<nrows exposure. \<exists>i<ncols exposure.
         np_gt (cell exposure j i) (Fin 0) \<and> np_eq (cell background j i) (Fin 0))"
    using get_mask_same_shape [OF assms] by blast
  have dims: "nrows mask_arr = nrows exposure" "ncols mask_arr = ncols exposure"
    using sm by (simp_all add: shape_def)
  have "set (get_positions kernel_shape mask_arr) =
       {(j, i). fst kernel_shape div 2 \<le> j \<and>
                int j < int (nrows exposure) - int (fst kernel_shape div 2) \<and>
                snd kernel_shape div 2 \<le> i \<and>
                int i < int (ncols exposure) - int (snd kernel_shape div 2) \<and>
                np_gt (cell exposure' j i) (Fin 0)}"
    unfolding set_get_positions dims using cells by auto
  with g cells w show ?thesis
    using sorted_wrt_get_positions by blast
qed

theorem anomaly_mask_positions_witness:
  "shape (row2 (Fin 5) (Fin 3)) = shape (row2 (Fin 0) (Fin 1))
   \<and> (\<exists>exposure' mask_arr.
        get_mask (row2 (Fin 5) (Fin 3)) (row2 (Fin 0) (Fin 1)) = Inr (exposure', True, mask_arr)
        \<and> cell exposure' 0 0 = Fin 0 \<and> cell exposure' 0 1 = Fin 3
        \<and> get_positions (1, 1) mask_arr = [(0, 1)])"
proof -
  let ?e = "row2 (Fin 5) (Fin 3)" and ?b = "row2 (Fin 0) (Fin 1)"
  have h: "shape ?e = shape ?b"
    by (simp add: row2_def shape_def)
  from anomaly_mask_positions [OF h, of "(1, 1)"]
  obtain exposure' warned mask_arr where
    g: "get_mask ?e ?b = Inr (exposure', warned, mask_arr)"
    and c: "\<forall>j<nrows ?e. \<forall>i<ncols ?e.
        cell exposure' j i =
          (if np_gt (cell ?e j i) (Fin 0) \<and> np_eq (cell ?b j i) (Fin 0)
           then Fin 0 else cell ?e j i)"
    and w: "warned \<longleftrightarrow> (\<exists>j<nrows ?e. \<exists>i<ncols ?e.
         np_gt (cell ?e j i) (Fin 0) \<and> np_eq (cell ?b j i) (Fin 0))"
    and s: "set (get_positions (1, 1) mask_arr) =
       {(j, i). fst (1::nat, 1::nat) div 2 \<le> j \<and>
                int j < int (nrows ?e) - int (fst (1::nat, 1::nat) div 2) \<and>
                snd (1::nat, 1::nat) div 2 \<le> i \<and>
                int i < int (ncols ?e) - int (snd (1::nat, 1::nat) div 2) \<and>
                np_gt (cell exposure' j i) (Fin 0)}"
    and o: "sorted_wrt row_major (get_positions (1, 1) mask_arr)"
    by blast
  have c0: "cell exposure' 0 0 = Fin 0" and c1: "cell exposure' 0 1 = Fin 3"
    using c by (simp_all add: row2_def np_eq_def)
  have w1: "warned"
    unfolding w by (rule exI [of _ 0]) (simp add: row2_def np_eq_def)
  have "set (get_positions (1, 1) mask_arr) = {(0, 1)}"
  proof -
    have "i = 1" if "i < 2" "np_gt (cell exposure' 0 i) (Fin 0)" for i :: nat
    proof (cases "i = 0")
      case True
      with that(2) c0 show ?thesis by simp
    next
      case False
      with that(1) show ?thesis by simp
    qed
    then show ?thesis
      unfolding s using c1 by (auto simp: row2_def)
  qed
  then have "get_positions (1, 1) mask_arr = [(0, 1)]"
    using o sorted_row_major_singleton by blast
  with h g c0 c1 w1 show ?thesis by auto
qed

end
